theory Spec2Isabelle
  imports Main "HOL-Library.Multiset"
begin

section \<open>JavaScript values the handlers compute with\<close>

text \<open>
  Strings are lists of code units below 256. \<open>trim\<close> and \<open>parseInt\<close> skip the
  white space and line terminators of that range: TAB, LF, VT, FF, CR, SP and NBSP.
\<close>

definition isWhiteSpace :: "char \<Rightarrow> bool" where
  "isWhiteSpace c =
     (c \<in> set [CHR 0x09, CHR 0x0A, CHR 0x0B, CHR 0x0C, CHR 0x0D, CHR 0x20, CHR 0xA0])"

definition trim :: "string \<Rightarrow> string" where
  "trim s = rev (dropWhile isWhiteSpace (rev (dropWhile isWhiteSpace s)))"

text \<open>
  An optional string field is \<open>None\<close> when the property is \<open>undefined\<close>.
  \<open>falsy\<close> is JavaScript's \<open>!s\<close> on such a value: \<open>undefined\<close> and the empty
  string are falsy.
\<close>

definition falsy :: "string option \<Rightarrow> bool" where
  "falsy s = (case s of None \<Rightarrow> True | Some x \<Rightarrow> x = [])"

definition truthy :: "string option \<Rightarrow> bool" where
  "truthy s = (case s of None \<Rightarrow> False | Some x \<Rightarrow> x \<noteq> [])"

text \<open>\<open>s?.trim() || d\<close> on an optional string.\<close>

definition trimOr :: "string option \<Rightarrow> string \<Rightarrow> string" where
  "trimOr s d = (case s of None \<Rightarrow> d | Some x \<Rightarrow> if trim x = [] then d else trim x)"

text \<open>\<open>s?.trim() || null\<close> on an optional string.\<close>

definition trimOrNull :: "string option \<Rightarrow> string option" where
  "trimOrNull s = (case s of None \<Rightarrow> None | Some x \<Rightarrow> if trim x = [] then None else Some (trim x))"

text \<open>\<open>String(v)\<close> of an optional string: \<open>undefined\<close> prints as its name.\<close>

definition String_of :: "string option \<Rightarrow> string" where
  "String_of v = (case v of None \<Rightarrow> ''undefined'' | Some s \<Rightarrow> s)"

subsection \<open>Numbers\<close>

text \<open>
  A JavaScript number is a double. Every number the handlers compute is \<open>NaN\<close>, an
  infinity or an integer-valued double, so a finite number is kept as the integer it
  equals. \<open>round_double\<close> is the double nearest to an integer (ties to the even
  significand of 53 bits, overflow to an infinity): integers up to \<open>2 ^ 53\<close> in
  magnitude are doubles themselves.
\<close>

datatype number = NaN | Finite int | PosInfinity | NegInfinity

fun bit_length :: "nat \<Rightarrow> nat" where
  "bit_length n = (if n = 0 then 0 else Suc (bit_length (n div 2)))"

declare bit_length.simps [simp del]

definition round_double :: "int \<Rightarrow> number" where
  "round_double n =
     (let a = nat (abs n)
      in if a \<le> 9007199254740992 then Finite n
         else (let e = bit_length a - 53;
                   q = a div 2 ^ e;
                   r = a mod 2 ^ e;
                   h = 2 ^ (e - 1);
                   m = (if h < r \<or> (r = h \<and> odd q) then q + 1 else q) * 2 ^ e
               in if 2 ^ 1024 \<le> m then (if 0 < n then PosInfinity else NegInfinity)
                  else Finite (sgn n * int m)))"

definition isDigit :: "char \<Rightarrow> bool" where
  "isDigit c = (48 \<le> (of_char c :: nat) \<and> (of_char c :: nat) \<le> 57)"

definition digitsToNat :: "string \<Rightarrow> nat" where
  "digitsToNat ds = foldl (\<lambda>acc c. 10 * acc + (of_char c - 48)) 0 ds"

text \<open>
  \<open>parseInt(s, 10)\<close>: leading white space is skipped, one sign is read, then the
  longest run of decimal digits; the result is \<open>NaN\<close> when no digit was read and
  otherwise the double nearest to the integer read.
\<close>

definition parseInt :: "string \<Rightarrow> number" where
  "parseInt s =
     (let t = dropWhile isWhiteSpace s;
          neg = (case t of [] \<Rightarrow> False | c # _ \<Rightarrow> c = CHR ''-'');
          u = (case t of [] \<Rightarrow> [] | c # cs \<Rightarrow> if c = CHR ''-'' \<or> c = CHR ''+'' then cs else t);
          ds = takeWhile isDigit u
      in if ds = [] then NaN
         else round_double ((if neg then - 1 else 1) * int (digitsToNat ds)))"

text \<open>\<open>x || d\<close> on a number: \<open>NaN\<close> and \<open>0\<close> are falsy.\<close>

definition orDefault :: "number \<Rightarrow> number \<Rightarrow> number" where
  "orDefault x d = (case x of NaN \<Rightarrow> d | Finite k \<Rightarrow> if k = 0 then d else x
                    | PosInfinity \<Rightarrow> x | NegInfinity \<Rightarrow> x)"

fun Math_max :: "number \<Rightarrow> number \<Rightarrow> number" where
  "Math_max NaN y = NaN"
| "Math_max x NaN = NaN"
| "Math_max PosInfinity y = PosInfinity"
| "Math_max x PosInfinity = PosInfinity"
| "Math_max NegInfinity y = y"
| "Math_max x NegInfinity = x"
| "Math_max (Finite a) (Finite b) = Finite (max a b)"

fun Math_min :: "number \<Rightarrow> number \<Rightarrow> number" where
  "Math_min NaN y = NaN"
| "Math_min x NaN = NaN"
| "Math_min NegInfinity y = NegInfinity"
| "Math_min x NegInfinity = NegInfinity"
| "Math_min PosInfinity y = y"
| "Math_min x PosInfinity = x"
| "Math_min (Finite a) (Finite b) = Finite (min a b)"

text \<open>\<open>x - y\<close> and \<open>x * y\<close> on numbers: the exact result, rounded to a double.\<close>

fun js_minus :: "number \<Rightarrow> number \<Rightarrow> number" where
  "js_minus (Finite a) (Finite b) = round_double (a - b)"
| "js_minus NaN y = NaN"
| "js_minus x NaN = NaN"
| "js_minus PosInfinity PosInfinity = NaN"
| "js_minus NegInfinity NegInfinity = NaN"
| "js_minus PosInfinity y = PosInfinity"
| "js_minus NegInfinity y = NegInfinity"
| "js_minus x PosInfinity = NegInfinity"
| "js_minus x NegInfinity = PosInfinity"

fun js_negate :: "number \<Rightarrow> number" where
  "js_negate NaN = NaN"
| "js_negate (Finite a) = Finite (- a)"
| "js_negate PosInfinity = NegInfinity"
| "js_negate NegInfinity = PosInfinity"

fun js_times :: "number \<Rightarrow> number \<Rightarrow> number" where
  "js_times (Finite a) (Finite b) = round_double (a * b)"
| "js_times NaN y = NaN"
| "js_times x NaN = NaN"
| "js_times (Finite a) y = (if a = 0 then NaN else if 0 < a then y else js_negate y)"
| "js_times x (Finite b) = (if b = 0 then NaN else if 0 < b then x else js_negate x)"
| "js_times x y = (if x = y then PosInfinity else NegInfinity)"

section \<open>The store: tables of the schema\<close>

text \<open>
  Values of the UUID columns are natural numbers and timestamps are integers. A table
  is the list of its rows in insertion order. The store reads the text given for a
  \<open>TIMESTAMPTZ\<close> parameter with its own input function, a parameter \<open>parse\<close>
  of the model: \<open>None\<close> is a text it refuses.
\<close>

type_synonym uuid = nat
type_synonym timestamp = int
type_synonym sqlstate = string

record user_row =
  uid :: uuid
  email :: string
  password_hash :: string
  name :: "string option"
  user_created_at :: timestamp
  user_updated_at :: timestamp

record task_row =
  task_id :: uuid
  user_id :: uuid
  title :: string
  description :: "string option"
  status :: string
  priority :: string
  due_date :: "timestamp option"
  created_at :: timestamp
  updated_at :: timestamp

record database =
  users :: "user_row list"
  tasks :: "task_row list"

definition STATUSES :: "string list" where
  "STATUSES = [''todo'', ''in_progress'', ''done'']"

definition PRIORITIES :: "string list" where
  "PRIORITIES = [''low'', ''medium'', ''high'']"

text \<open>
  The values a statement on \<open>tasks\<close> carries for its columns, as the handlers push
  them: texts, and for \<open>due_date\<close> a text or \<open>null\<close>.
\<close>

datatype assignment =
    SetTitle string
  | SetDescription string
  | SetStatus string
  | SetPriority string
  | SetDueDate "string option"

text \<open>
  A value is checked against its column when the statement is prepared, whether or not
  a row will match: a text the store cannot read as a timestamp is refused (22007), and
  so is a text longer than its \<open>VARCHAR\<close> column (22001): \<open>title VARCHAR(500)\<close>,
  \<open>status\<close> and \<open>priority\<close> \<open>VARCHAR(20)\<close>.
\<close>

fun unreadable :: "(string \<Rightarrow> timestamp option) \<Rightarrow> assignment \<Rightarrow> bool" where
  "unreadable parse (SetDueDate (Some s)) = (parse s = None)"
| "unreadable parse a = False"

fun too_long :: "assignment \<Rightarrow> bool" where
  "too_long (SetTitle t) = (500 < length t)"
| "too_long (SetStatus s) = (20 < length s)"
| "too_long (SetPriority p) = (20 < length p)"
| "too_long a = False"

definition params_error ::
  "(string \<Rightarrow> timestamp option) \<Rightarrow> assignment list \<Rightarrow> sqlstate option" where
  "params_error parse updates =
     (if list_ex (unreadable parse) updates then Some ''22007''
      else if list_ex too_long updates then Some ''22001''
      else None)"

text \<open>The \<open>CHECK\<close> constraints of \<open>tasks\<close>, tested on every row written.\<close>

definition row_checks :: "task_row \<Rightarrow> bool" where
  "row_checks r =
     (status r \<in> set [''todo'', ''in_progress'', ''done'']
      \<and> priority r \<in> set [''low'', ''medium'', ''high''])"

text \<open>
  \<open>INSERT INTO tasks (user_id, title, description, status, priority, due_date)
  VALUES (...) RETURNING *\<close>. The store supplies the generated id and \<open>now()\<close> for
  both timestamps. After the values, the row's \<open>CHECK\<close> constraints (23514), the
  primary key (23505) and the foreign key to \<open>users\<close> (23503) can fail.
\<close>

definition insert_task ::
  "(string \<Rightarrow> timestamp option) \<Rightarrow> uuid \<Rightarrow> timestamp \<Rightarrow> database \<Rightarrow> uuid \<Rightarrow> string
     \<Rightarrow> string option \<Rightarrow> string \<Rightarrow> string \<Rightarrow> string option
     \<Rightarrow> sqlstate + (task_row \<times> database)" where
  "insert_task parse new_id now db userId t d s p due =
     (case params_error parse [SetTitle t, SetStatus s, SetPriority p, SetDueDate due] of
        Some e \<Rightarrow> Inl e
      | None \<Rightarrow>
          (let row = \<lparr>task_id = new_id, user_id = userId, title = t, description = d,
                       status = s, priority = p,
                       due_date = (case due of None \<Rightarrow> None | Some x \<Rightarrow> parse x),
                       created_at = now, updated_at = now\<rparr>
           in if row_checks row
              then (if new_id \<in> set (map task_id (tasks db)) then Inl ''23505''
                    else if userId \<in> set (map uid (users db))
                    then Inr (row, db\<lparr>tasks := tasks db @ [row]\<rparr>)
                    else Inl ''23503'')
              else Inl ''23514''))"

text \<open>\<open>SELECT * FROM tasks WHERE id = $1 AND user_id = $2\<close>.\<close>

definition select_task :: "database \<Rightarrow> uuid \<Rightarrow> uuid \<Rightarrow> task_row list" where
  "select_task db id' userId =
     filter (\<lambda>r. task_id r = id' \<and> user_id r = userId) (tasks db)"

text \<open>The \<open>SET\<close> clause: \<open>updated_at = now()\<close>, then the pushed assignments.\<close>

fun assign :: "(string \<Rightarrow> timestamp option) \<Rightarrow> assignment \<Rightarrow> task_row \<Rightarrow> task_row" where
  "assign parse (SetTitle t) r = r\<lparr>title := t\<rparr>"
| "assign parse (SetDescription d) r = r\<lparr>description := Some d\<rparr>"
| "assign parse (SetStatus s) r = r\<lparr>status := s\<rparr>"
| "assign parse (SetPriority p) r = r\<lparr>priority := p\<rparr>"
| "assign parse (SetDueDate d) r =
     r\<lparr>due_date := (case d of None \<Rightarrow> None | Some s \<Rightarrow> parse s)\<rparr>"

definition set_clause ::
  "(string \<Rightarrow> timestamp option) \<Rightarrow> timestamp \<Rightarrow> assignment list \<Rightarrow> task_row \<Rightarrow> task_row" where
  "set_clause parse now updates r = fold (assign parse) updates (r\<lparr>updated_at := now\<rparr>)"

text \<open>
  \<open>UPDATE tasks SET ... WHERE id = $n AND user_id = $m RETURNING *\<close>: the values are
  checked first; then the rows hit are rewritten by the \<open>SET\<close> clause and the others
  stay. A rewritten row that fails a \<open>CHECK\<close> makes the statement fail and leaves
  the table as it was.
\<close>

definition update_where ::
  "(string \<Rightarrow> timestamp option) \<Rightarrow> timestamp \<Rightarrow> assignment list \<Rightarrow> database \<Rightarrow> uuid \<Rightarrow> uuid
     \<Rightarrow> sqlstate + (task_row list \<times> database)" where
  "update_where parse now updates db id' userId =
     (case params_error parse updates of
        Some e \<Rightarrow> Inl e
      | None \<Rightarrow>
          (let returned = map (set_clause parse now updates) (select_task db id' userId)
           in if list_all row_checks returned
              then Inr (returned,
                        db\<lparr>tasks := map (\<lambda>r. if task_id r = id' \<and> user_id r = userId
                                                then set_clause parse now updates r else r)
                                        (tasks db)\<rparr>)
              else Inl ''23514''))"


text \<open>
  The store reads the \<open>LIMIT\<close> and \<open>OFFSET\<close> parameters as \<open>bigint\<close> from the
  text the driver sends for a number: digits for a finite number below \<open>10 ^ 21\<close> in
  magnitude, an exponent form or a name otherwise, which the store cannot read
  (22P02); digits outside the 64-bit range are refused (22003).
\<close>

definition bigint_in :: "number \<Rightarrow> sqlstate + int" where
  "bigint_in x =
     (case x of
        Finite n \<Rightarrow>
          if 1000000000000000000000 \<le> abs n then Inl ''22P02''
          else if n < - 9223372036854775808 \<or> 9223372036854775807 < n then Inl ''22003''
          else Inr n
      | NaN \<Rightarrow> Inl ''22P02''
      | PosInfinity \<Rightarrow> Inl ''22P02''
      | NegInfinity \<Rightarrow> Inl ''22P02'')"

text \<open>
  \<open>SELECT * FROM tasks WHERE ... ORDER BY created_at DESC LIMIT $n OFFSET $m\<close>. The
  matching rows are sorted by \<open>created_at\<close>, descending. The query names no second
  key: rows of equal \<open>created_at\<close> come in the order in which the store's sort meets
  them, which the store chooses for each query; \<open>tie\<close> is that choice, a
  rearrangement of the matching rows (\<open>tie_ok\<close>) ahead of a stable sort.
\<close>

definition whereClause :: "(task_row \<Rightarrow> bool) list \<Rightarrow> task_row \<Rightarrow> bool" where
  "whereClause conditions r = list_all (\<lambda>c. c r) conditions"

definition tie_ok :: "(task_row list \<Rightarrow> task_row list) \<Rightarrow> bool" where
  "tie_ok tie = (\<forall>rows. mset (tie rows) = mset rows)"

definition newest_first :: "task_row list \<Rightarrow> task_row list" where
  "newest_first rows = sort_key (\<lambda>r. - created_at r) rows"

definition list_rows ::
  "(task_row list \<Rightarrow> task_row list) \<Rightarrow> database \<Rightarrow> (task_row \<Rightarrow> bool) list \<Rightarrow> number \<Rightarrow> number
     \<Rightarrow> sqlstate + task_row list" where
  "list_rows tie db conditions limit offset =
     (case bigint_in limit of
        Inl e \<Rightarrow> Inl e
      | Inr l \<Rightarrow>
          (case bigint_in offset of
             Inl e \<Rightarrow> Inl e
           | Inr off \<Rightarrow>
               if l < 0 then Inl ''2201W''
               else if off < 0 then Inl ''2201X''
               else Inr (take (nat l) (drop (nat off)
                          (newest_first (tie (filter (whereClause conditions) (tasks db))))))))"

section \<open>Responses\<close>

text \<open>
  A handler either sends a response (\<open>res.status(n).json(b)\<close>) or hands an error to
  \<open>next\<close>. The record a task handler returns has the fields of a row; a list
  response carries the records, the total and the page and limit as computed.
\<close>

datatype token_detail = ExpiredAt timestamp | ValidFrom timestamp | Message string

datatype body =
    ErrorBody string
  | TaskBody task_row
  | ListBody "task_row list" nat number number
  | EmptyBody
  | UserBody uuid string "string option" timestamp timestamp
  | LoginBody string uuid string "string option"
  | TokenErrorBody string token_detail string

datatype outcome = Reply nat body | NextErr sqlstate

section \<open>routes/tasks.ts\<close>

definition rowToTask :: "task_row \<Rightarrow> task_row" where
  "rowToTask row =
     row\<lparr>description := Some (case description row of None \<Rightarrow> [] | Some d \<Rightarrow> d)\<rparr>"

record list_query =
  q_status :: "string option"
  q_priority :: "string option"
  q_page :: "string option"
  q_limit :: "string option"

definition list_page :: "string option \<Rightarrow> number" where
  "list_page p = Math_max (Finite 1) (orDefault (parseInt (String_of p)) (Finite 1))"

definition list_limit :: "string option \<Rightarrow> number" where
  "list_limit l =
     Math_min (Finite 100) (Math_max (Finite 1) (orDefault (parseInt (String_of l)) (Finite 20)))"

text \<open>The conditions pushed for the \<open>WHERE\<close> clause, joined by \<open>AND\<close>.\<close>

definition list_conditions ::
  "uuid \<Rightarrow> string option \<Rightarrow> string option \<Rightarrow> (task_row \<Rightarrow> bool) list" where
  "list_conditions userId st pr =
     [\<lambda>r. user_id r = userId]
     @ (if truthy st then [\<lambda>r. Some (status r) = st] else [])
     @ (if truthy pr then [\<lambda>r. Some (priority r) = pr] else [])"

text \<open>\<open>x && !LIST.includes(x)\<close> on an optional query string.\<close>

definition truthy_not_in :: "string option \<Rightarrow> string list \<Rightarrow> bool" where
  "truthy_not_in x allowed = (case x of None \<Rightarrow> False | Some s \<Rightarrow> s \<noteq> [] \<and> s \<notin> set allowed)"

text \<open>
  \<open>GET /\<close>: the count query, then the list query; an error of the store goes to
  \<open>next\<close>.
\<close>

definition list_handler ::
  "(task_row list \<Rightarrow> task_row list) \<Rightarrow> database \<Rightarrow> uuid \<Rightarrow> list_query \<Rightarrow> outcome" where
  "list_handler tie db userId q =
     (let page = list_page (q_page q);
          limit = list_limit (q_limit q);
          offset = js_times (js_minus page (Finite 1)) limit
      in if truthy_not_in (q_status q) STATUSES then Reply 400 (ErrorBody ''Invalid status'')
         else if truthy_not_in (q_priority q) PRIORITIES
         then Reply 400 (ErrorBody ''Invalid priority'')
         else (let conditions = list_conditions userId (q_status q) (q_priority q);
                   total = length (filter (whereClause conditions) (tasks db))
               in case list_rows tie db conditions limit offset of
                    Inl e \<Rightarrow> NextErr e
                  | Inr rows \<Rightarrow> Reply 200 (ListBody (map rowToTask rows) total page limit)))"

text \<open>The \<open>data\<close> of a list response; no other outcome carries records.\<close>

fun data_of :: "outcome \<Rightarrow> task_row list" where
  "data_of (Reply code (ListBody rows n p l)) = rows"
| "data_of other = []"

text \<open>
  The request body of \<open>POST /\<close> and \<open>PATCH /:id\<close>, as the handlers type it:
  optional strings, and a \<open>due_date\<close> that is absent, \<open>null\<close> or a string.
\<close>

datatype due_date_input = Undefined | Null | Text string

record task_input =
  in_title :: "string option"
  in_description :: "string option"
  in_status :: "string option"
  in_priority :: "string option"
  in_due_date :: due_date_input

text \<open>\<open>due_date === null || due_date === "" ? null : due_date\<close>, then \<open>|| null\<close>.\<close>

definition create_dueDate :: "due_date_input \<Rightarrow> string option" where
  "create_dueDate d =
     (case d of Undefined \<Rightarrow> None | Null \<Rightarrow> None | Text s \<Rightarrow> if s = [] then None else Some s)"

definition create_handler ::
  "(string \<Rightarrow> timestamp option) \<Rightarrow> uuid \<Rightarrow> timestamp \<Rightarrow> database \<Rightarrow> uuid \<Rightarrow> task_input
     \<Rightarrow> outcome \<times> database" where
  "create_handler parse new_id now db userId b =
     (if falsy (in_title b) \<or> falsy (map_option trim (in_title b))
      then (Reply 400 (ErrorBody ''Title is required''), db)
      else (let title' = (case in_title b of None \<Rightarrow> [] | Some t \<Rightarrow> trim t);
                taskStatus = trimOr (in_status b) ''todo'';
                taskPriority = trimOr (in_priority b) ''medium''
            in if taskStatus \<notin> set STATUSES then (Reply 400 (ErrorBody ''Invalid status''), db)
               else if taskPriority \<notin> set PRIORITIES
               then (Reply 400 (ErrorBody ''Invalid priority''), db)
               else (case insert_task parse new_id now db userId title'
                            (trimOrNull (in_description b)) taskStatus taskPriority
                            (create_dueDate (in_due_date b)) of
                       Inl e \<Rightarrow> (NextErr e, db)
                     | Inr (row, db') \<Rightarrow> (Reply 201 (TaskBody (rowToTask row)), db'))))"

definition not_found :: outcome where
  "not_found = Reply 404 (ErrorBody ''Task not found'')"


text \<open>
  \<open>PATCH /:id\<close> pushes one assignment with its value for every field that is not
  \<open>undefined\<close>, after the fixed \<open>updated_at = now()\<close>.
\<close>

definition patch_assignments :: "task_input \<Rightarrow> assignment list" where
  "patch_assignments b =
     (case in_title b of None \<Rightarrow> [] | Some t \<Rightarrow> [SetTitle (trim t)])
     @ (case in_description b of None \<Rightarrow> [] | Some d \<Rightarrow> [SetDescription (trim d)])
     @ (case in_status b of None \<Rightarrow> [] | Some s \<Rightarrow> [SetStatus s])
     @ (case in_priority b of None \<Rightarrow> [] | Some p \<Rightarrow> [SetPriority p])
     @ (case in_due_date b of
          Undefined \<Rightarrow> []
        | Null \<Rightarrow> [SetDueDate None]
        | Text s \<Rightarrow> [SetDueDate (if s = [] then None else Some s)])"

text \<open>\<open>x !== undefined && !LIST.includes(x)\<close> on an optional body string.\<close>

definition defined_not_in :: "string option \<Rightarrow> string list \<Rightarrow> bool" where
  "defined_not_in x allowed = (case x of None \<Rightarrow> False | Some s \<Rightarrow> s \<notin> set allowed)"

definition patch_handler ::
  "(string \<Rightarrow> timestamp option) \<Rightarrow> timestamp \<Rightarrow> database \<Rightarrow> uuid \<Rightarrow> uuid \<Rightarrow> task_input
     \<Rightarrow> outcome \<times> database" where
  "patch_handler parse now db userId id' b =
     (if defined_not_in (in_status b) STATUSES then (Reply 400 (ErrorBody ''Invalid status''), db)
      else if defined_not_in (in_priority b) PRIORITIES
      then (Reply 400 (ErrorBody ''Invalid priority''), db)
      else (let updates = patch_assignments b
            in if length updates = 0
               then (case select_task db id' userId of
                       [] \<Rightarrow> (not_found, db)
                     | row # _ \<Rightarrow> (Reply 200 (TaskBody (rowToTask row)), db))
               else (case update_where parse now updates db id' userId of
                       Inl e \<Rightarrow> (NextErr e, db)
                     | Inr (rows, db') \<Rightarrow>
                         (case rows of
                            [] \<Rightarrow> (not_found, db')
                          | row # _ \<Rightarrow> (Reply 200 (TaskBody (rowToTask row)), db')))))"


section \<open>config/config.ts\<close>

text \<open>
  The exported object, with exactly the properties of the object literal. Their values
  are read from the process environment and are parameters here. Reading a property the
  object does not have yields \<open>undefined\<close>.
\<close>

datatype js_value = JsUndefined | JsNumber int | JsString string

definition config :: "int \<Rightarrow> string \<Rightarrow> string option \<Rightarrow> (string \<times> js_value) list" where
  "config port nodeEnv databaseUrl =
     [(''port'', JsNumber port),
      (''nodeEnv'', JsString nodeEnv),
      (''databaseUrl'', case databaseUrl of None \<Rightarrow> JsUndefined | Some u \<Rightarrow> JsString u)]"

definition property :: "(string \<times> js_value) list \<Rightarrow> string \<Rightarrow> js_value" where
  "property obj k = (case map_of obj k of None \<Rightarrow> JsUndefined | Some v \<Rightarrow> v)"

definition js_falsy :: "js_value \<Rightarrow> bool" where
  "js_falsy v = (case v of JsUndefined \<Rightarrow> True | JsNumber n \<Rightarrow> n = 0 | JsString s \<Rightarrow> s = [])"

section \<open>middleware/auth.ts\<close>

text \<open>
  \<open>jwt.verify\<close> belongs to a library and is a parameter: it calls back with an error
  (its name, its message, and the time an expiry or not-before error carries) or with
  the decoded payload \<open>{userId, email}\<close>.
\<close>

record jwt_error =
  err_name :: string
  err_message :: string
  expiredAt :: timestamp
  date :: timestamp

type_synonym jwt_verify = "string \<Rightarrow> js_value \<Rightarrow> jwt_error + (uuid \<times> string)"

datatype auth_result = Rejected outcome | Authenticated uuid string

text \<open>\<open>authHeader?.startsWith('Bearer ') ? authHeader.slice(7) : undefined\<close>.\<close>

definition bearer_token :: "string option \<Rightarrow> string option" where
  "bearer_token authHeader =
     (case authHeader of
        None \<Rightarrow> None
      | Some h \<Rightarrow> if take 7 h = ''Bearer '' then Some (drop 7 h) else None)"

definition verify_callback :: "jwt_error + (uuid \<times> string) \<Rightarrow> auth_result" where
  "verify_callback r =
     (case r of
        Inl err \<Rightarrow>
          if err_name err = ''TokenExpiredError''
          then Rejected (Reply 401
                 (TokenErrorBody ''Token expired'' (ExpiredAt (expiredAt err)) ''TOKEN_EXPIRED''))
          else if err_name err = ''NotBeforeError''
          then Rejected (Reply 401
                 (TokenErrorBody ''Token not yet valid'' (ValidFrom (date err)) ''TOKEN_NOT_ACTIVE''))
          else Rejected (Reply 401
                 (TokenErrorBody ''Invalid token'' (Message (err_message err)) ''TOKEN_INVALID''))
      | Inr (userId, email') \<Rightarrow> Authenticated userId email')"

definition authenticate ::
  "(string \<times> js_value) list \<Rightarrow> jwt_verify \<Rightarrow> string option \<Rightarrow> auth_result" where
  "authenticate cfg verify authHeader =
     (case bearer_token authHeader of
        None \<Rightarrow> Rejected (Reply 401 (ErrorBody ''No token provided''))
      | Some token \<Rightarrow>
          if token = [] then Rejected (Reply 401 (ErrorBody ''No token provided''))
          else if js_falsy (property cfg ''jwtSecret'')
          then Rejected (Reply 500 (ErrorBody ''Server misconfiguration''))
          else verify_callback (verify token (property cfg ''jwtSecret'')))"

section \<open>The auth routes\<close>

text \<open>
  \<open>bcrypt.hash\<close>, \<open>bcrypt.compare\<close> and \<open>jwt.sign\<close> belong to libraries and
  are parameters. Column constraints of \<open>users\<close>: three \<open>VARCHAR(255)\<close> columns,
  the primary key and the unique \<open>email\<close>.
\<close>

definition SALT_ROUNDS :: nat where
  "SALT_ROUNDS = 10"

definition user_violation :: "user_row \<Rightarrow> sqlstate option" where
  "user_violation u =
     (if 255 < length (email u) \<or> 255 < length (password_hash u)
         \<or> (case name u of None \<Rightarrow> False | Some n \<Rightarrow> 255 < length n)
      then Some ''22001'' else None)"

definition insert_user ::
  "uuid \<Rightarrow> timestamp \<Rightarrow> database \<Rightarrow> string \<Rightarrow> string \<Rightarrow> string option
     \<Rightarrow> sqlstate + (user_row \<times> database)" where
  "insert_user new_id now db e h n =
     (let row = \<lparr>uid = new_id, email = e, password_hash = h, name = n,
                  user_created_at = now, user_updated_at = now\<rparr>
      in case user_violation row of
           Some x \<Rightarrow> Inl x
         | None \<Rightarrow>
             if new_id \<in> set (map uid (users db)) \<or> e \<in> set (map email (users db))
             then Inl ''23505''
             else Inr (row, db\<lparr>users := users db @ [row]\<rparr>))"

record credentials =
  c_email :: "string option"
  c_password :: "string option"
  c_name :: "string option"

definition register_handler ::
  "(string \<Rightarrow> nat \<Rightarrow> string) \<Rightarrow> uuid \<Rightarrow> timestamp \<Rightarrow> database \<Rightarrow> credentials
     \<Rightarrow> outcome \<times> database" where
  "register_handler bcrypt_hash new_id now db b =
     (case (c_email b, c_password b) of
        (Some email', Some password) \<Rightarrow>
          if email' = [] \<or> password = []
          then (Reply 400 (ErrorBody ''Email and password are required''), db)
          else (case insert_user new_id now db (trim email') (bcrypt_hash password SALT_ROUNDS)
                       (trimOrNull (c_name b)) of
                  Inl e \<Rightarrow>
                    if e = ''23505'' then (Reply 409 (ErrorBody ''Email already registered''), db)
                    else (NextErr e, db)
                | Inr (user, db') \<Rightarrow>
                    (Reply 201 (UserBody (uid user) (email user) (name user)
                                  (user_created_at user) (user_updated_at user)), db'))
      | _ \<Rightarrow> (Reply 400 (ErrorBody ''Email and password are required''), db))"

definition invalid_credentials :: outcome where
  "invalid_credentials = Reply 401 (ErrorBody ''Invalid email or password'')"

definition login_handler ::
  "(string \<times> js_value) list \<Rightarrow> (string \<Rightarrow> string \<Rightarrow> bool)
     \<Rightarrow> (uuid \<times> string \<Rightarrow> js_value \<Rightarrow> string \<Rightarrow> string) \<Rightarrow> database \<Rightarrow> credentials
     \<Rightarrow> outcome" where
  "login_handler cfg bcrypt_compare jwt_sign db b =
     (case (c_email b, c_password b) of
        (Some email', Some password) \<Rightarrow>
          if email' = [] \<or> password = []
          then Reply 400 (ErrorBody ''Email and password are required'')
          else (case filter (\<lambda>u. email u = trim email') (users db) of
                  [] \<Rightarrow> invalid_credentials
                | row # _ \<Rightarrow>
                    if bcrypt_compare password (password_hash row)
                    then (if js_falsy (property cfg ''jwtSecret'')
                          then Reply 500 (ErrorBody ''Server misconfiguration'')
                          else Reply 200
                                 (LoginBody
                                    (jwt_sign (uid row, email row) (property cfg ''jwtSecret'') ''7d'')
                                    (uid row) (email row) (name row)))
                    else invalid_credentials)
      | _ \<Rightarrow> Reply 400 (ErrorBody ''Email and password are required''))"

section \<open>Example data\<close>

text \<open>
  Users and tasks, and stand-ins for the library functions and for the store's reading
  of timestamps, used to run the handlers on concrete requests.
\<close>

definition toy_timestamptz :: "string \<Rightarrow> timestamp option" where
  "toy_timestamptz = map_of [(''2026-01-01'', 1767225600), (''2026-06-30'', 1782777600)]"

definition alice :: user_row where
  "alice = \<lparr>uid = 1, email = ''alice@example.com'', password_hash = ''hash:secret123'',
            name = None, user_created_at = 0, user_updated_at = 0\<rparr>"

definition bob :: user_row where
  "bob = \<lparr>uid = 2, email = ''bob@example.com'', password_hash = ''hash:hunter2'',
          name = Some ''Bob'', user_created_at = 1, user_updated_at = 1\<rparr>"

definition milk :: task_row where
  "milk = \<lparr>task_id = 10, user_id = 1, title = ''Buy milk'', description = None,
           status = ''todo'', priority = ''medium'', due_date = Some 1767225600,
           created_at = 5, updated_at = 5\<rparr>"

definition report :: task_row where
  "report = \<lparr>task_id = 20, user_id = 2, title = ''Write report'', description = Some ''Q3'',
             status = ''in_progress'', priority = ''high'', due_date = None,
             created_at = 5, updated_at = 7\<rparr>"

definition shop :: database where
  "shop = \<lparr>users = [alice, bob], tasks = [milk, report]\<rparr>"

definition toy_hash :: "string \<Rightarrow> nat \<Rightarrow> string" where
  "toy_hash p rounds = ''hash:'' @ p"

definition toy_compare :: "string \<Rightarrow> string \<Rightarrow> bool" where
  "toy_compare p h = (h = ''hash:'' @ p)"


definition creds :: "string \<Rightarrow> string \<Rightarrow> credentials" where
  "creds e p = \<lparr>c_email = Some e, c_password = Some p, c_name = None\<rparr>"

definition input0 :: task_input where
  "input0 = \<lparr>in_title = None, in_description = None, in_status = None, in_priority = None,
             in_due_date = Undefined\<rparr>"

definition buy_bread :: task_input where
  "buy_bread = input0\<lparr>in_title := Some '' Buy bread ''\<rparr>"

definition bread :: task_row where
  "bread = \<lparr>task_id = 30, user_id = 1, title = ''Buy bread'', description = None,
            status = ''todo'', priority = ''medium'', due_date = None,
            created_at = 9, updated_at = 9\<rparr>"



definition eggs :: task_row where
  "eggs = \<lparr>task_id = 11, user_id = 1, title = ''Buy eggs'', description = None,
           status = ''todo'', priority = ''low'', due_date = None,
           created_at = 3, updated_at = 3\<rparr>"

definition flour :: task_row where
  "flour = \<lparr>task_id = 12, user_id = 1, title = ''Buy flour'', description = Some ''2 kg'',
            status = ''done'', priority = ''low'', due_date = None,
            created_at = 3, updated_at = 4\<rparr>"

definition pantry :: database where
  "pantry = \<lparr>users = [alice, bob], tasks = [eggs, flour, report]\<rparr>"

definition larder :: database where
  "larder = \<lparr>users = [alice, bob], tasks = [eggs, milk, report]\<rparr>"

definition query :: "string option \<Rightarrow> string option \<Rightarrow> list_query" where
  "query p l = \<lparr>q_status = None, q_priority = None, q_page = p, q_limit = l\<rparr>"

text \<open>Five tasks of one user, created at the same time.\<close>

definition chore :: "uuid \<Rightarrow> task_row" where
  "chore k = \<lparr>task_id = k, user_id = 1, title = ''Chore'', description = Some ''weekly'',
              status = ''todo'', priority = ''low'', due_date = None,
              created_at = 3, updated_at = 3\<rparr>"

definition crowd :: database where
  "crowd = \<lparr>users = [alice, bob], tasks = [chore 101, chore 102, chore 103, chore 104, chore 105]\<rparr>"

text \<open>
  Orders in which a store's sort may meet the rows: as stored, with the first two
  exchanged (as a bounded heap of two leaves them), and reversed.
\<close>

definition as_stored :: "task_row list \<Rightarrow> task_row list" where
  "as_stored rows = rows"

definition first_two_exchanged :: "task_row list \<Rightarrow> task_row list" where
  "first_two_exchanged rows = (case rows of a # b # rest \<Rightarrow> b # a # rest | _ \<Rightarrow> rows)"

definition alternating :: "nat \<Rightarrow> task_row list \<Rightarrow> task_row list" where
  "alternating p rows = (if even p then rows else rev rows)"

text \<open>The page parameters of two requests.\<close>

definition page_text :: "nat \<Rightarrow> string option" where
  "page_text p = (if p = 1 then Some ''1'' else Some ''2'')"

section \<open>The configuration has no signing secret\<close>

lemma config_no_secret: "property (config port nodeEnv databaseUrl) ''jwtSecret'' = JsUndefined"
  by (simp add: property_def config_def)

section \<open>Facts about strings and numbers\<close>

lemmas strs = trim_def isWhiteSpace_def

lemma round_double_exact: "abs n \<le> 9007199254740992 \<Longrightarrow> round_double n = Finite n"
  unfolding round_double_def Let_def by (simp add: nat_le_iff)

lemmas nums = parseInt_def isWhiteSpace_def isDigit_def digitsToNat_def String_of_def
  orDefault_def round_double_exact Let_def

lemma parseInt_examples:
  "parseInt ''500'' = Finite 500 \<and> parseInt ''-3'' = Finite (- 3) \<and> parseInt '' 12abc'' = Finite 12
   \<and> parseInt ''undefined'' = NaN \<and> parseInt ''0'' = Finite 0"
  by (simp add: nums)

lemma round_double_big:
  assumes "\<not> nat (abs n) \<le> 9007199254740992"
  shows "\<exists>m. round_double n = (if (2::nat) ^ 1024 \<le> m then (if 0 < n then PosInfinity else NegInfinity)
                                else Finite (sgn n * int m))"
  unfolding round_double_def Let_def
  apply (simp only: assms if_False)
  apply (rule exI)
  apply (rule refl)
  done

lemma round_double_nonneg:
  assumes "0 \<le> n"
  shows "round_double n = PosInfinity \<or> (\<exists>m. 0 \<le> m \<and> round_double n = Finite m)"
proof (cases "nat (abs n) \<le> 9007199254740992")
  case True
  then have "round_double n = Finite n" by (simp only: round_double_def Let_def if_True)
  then show ?thesis using assms by blast
next
  case False
  then have "n \<noteq> 0" by auto
  with assms have pos: "0 < n" by simp
  from round_double_big[OF False] obtain m where
    m: "round_double n = (if (2::nat) ^ 1024 \<le> m then (if 0 < n then PosInfinity else NegInfinity)
                                else Finite (sgn n * int m))" by blast
  show ?thesis
  proof (cases "(2::nat) ^ 1024 \<le> m")
    case True
    with m pos have "round_double n = PosInfinity" by (simp only: if_True)
    then show ?thesis by blast
  next
    case False
    with m have "round_double n = Finite (sgn n * int m)" by (simp only: if_False)
    moreover have "0 \<le> sgn n * int m" using pos by simp
    ultimately show ?thesis by blast
  qed
qed

section \<open>Facts about the task handlers\<close>

lemmas store = update_where_def params_error_def row_checks_def set_clause_def select_task_def
  insert_task_def










lemma create_ok:
  assumes "create_handler parse new_id now db u b = (Reply 201 (TaskBody t), db')"
  shows "\<exists>x row. in_title b = Some x \<and> x \<noteq> [] \<and> trim x \<noteq> []
           \<and> row = \<lparr>task_id = new_id, user_id = u, title = trim x,
                        description = trimOrNull (in_description b),
                        status = trimOr (in_status b) ''todo'',
                        priority = trimOr (in_priority b) ''medium'',
                        due_date = (case create_dueDate (in_due_date b) of None \<Rightarrow> None
                                    | Some s \<Rightarrow> parse s),
                        created_at = now, updated_at = now\<rparr>
           \<and> db' = db\<lparr>tasks := tasks db @ [row]\<rparr>
           \<and> t = rowToTask row"
  using assms
  by (cases "in_title b")
     (auto simp: create_handler_def falsy_def insert_task_def Let_def
           split: if_splits sum.splits option.splits)



lemma create_bread:
  "create_handler toy_timestamptz 30 9 shop 1 buy_bread
     = (Reply 201 (TaskBody (bread\<lparr>description := Some []\<rparr>)), shop\<lparr>tasks := [milk, report, bread]\<rparr>)"
  by (simp add: create_handler_def buy_bread_def input0_def falsy_def strs trimOr_def
      trimOrNull_def create_dueDate_def STATUSES_def PRIORITIES_def store
      shop_def alice_def bob_def milk_def report_def bread_def rowToTask_def Let_def)










section \<open>Partial update\<close>




section \<open>Create\<close>

text \<open>
  Claim C4, as amended. A successful create appends one row with the generated id, the
  caller as owner and both timestamps equal to the time of the insert; status is
  \<open>todo\<close>, priority \<open>medium\<close>, description null and due date null where the input
  omits them. The returned record equals that row in every field but the description,
  where a stored null is returned as the empty string.
\<close>

theorem C4_create_defaults:
  "create_handler parse new_id now db u b = (Reply 201 (TaskBody t), db') \<longrightarrow>
     (\<exists>row. tasks db' = tasks db @ [row] \<and> users db' = users db
        \<and> task_id row = new_id \<and> user_id row = u
        \<and> created_at row = now \<and> updated_at row = now
        \<and> (in_status b = None \<longrightarrow> status row = ''todo'')
        \<and> (in_priority b = None \<longrightarrow> priority row = ''medium'')
        \<and> (in_description b = None \<longrightarrow> description row = None \<and> description t = Some [])
        \<and> (in_due_date b = Undefined \<longrightarrow> due_date row = None)
        \<and> t = row\<lparr>description := Some (case description row of None \<Rightarrow> [] | Some d \<Rightarrow> d)\<rparr>)"
proof
  assume ok: "create_handler parse new_id now db u b = (Reply 201 (TaskBody t), db')"
  from create_ok[OF ok] obtain x row where
    R: "row = \<lparr>task_id = new_id, user_id = u, title = trim x,
                        description = trimOrNull (in_description b),
                        status = trimOr (in_status b) ''todo'',
                        priority = trimOr (in_priority b) ''medium'',
                        due_date = (case create_dueDate (in_due_date b) of None \<Rightarrow> None
                                    | Some s \<Rightarrow> parse s),
                        created_at = now, updated_at = now\<rparr>"
    and D: "db' = db\<lparr>tasks := tasks db @ [row]\<rparr>"
    and T: "t = rowToTask row"
    by blast
  show "\<exists>row. tasks db' = tasks db @ [row] \<and> users db' = users db
        \<and> task_id row = new_id \<and> user_id row = u
        \<and> created_at row = now \<and> updated_at row = now
        \<and> (in_status b = None \<longrightarrow> status row = ''todo'')
        \<and> (in_priority b = None \<longrightarrow> priority row = ''medium'')
        \<and> (in_description b = None \<longrightarrow> description row = None \<and> description t = Some [])
        \<and> (in_due_date b = Undefined \<longrightarrow> due_date row = None)
        \<and> t = row\<lparr>description := Some (case description row of None \<Rightarrow> [] | Some d \<Rightarrow> d)\<rparr>"
    unfolding D T
    by (rule exI[of _ row])
       (simp add: R rowToTask_def trimOr_def trimOrNull_def create_dueDate_def)
qed

text \<open>
  The claim as stated has the returned description null and the returned record equal
  to the persisted row. Creating a task from a title alone stores a null description
  and returns the empty string.
\<close>

theorem C4_returned_description_counterexample:
  "create_handler toy_timestamptz 30 9 shop 1 buy_bread
     = (Reply 201 (TaskBody (bread\<lparr>description := Some []\<rparr>)), shop\<lparr>tasks := [milk, report, bread]\<rparr>)
   \<and> description bread = None
   \<and> description (bread\<lparr>description := Some []\<rparr>) \<noteq> None
   \<and> bread\<lparr>description := Some []\<rparr> \<noteq> bread"
proof -
  have "description (bread\<lparr>description := Some []\<rparr>) \<noteq> description bread"
    by (simp add: bread_def)
  then have "bread\<lparr>description := Some []\<rparr> \<noteq> bread" by metis
  then show ?thesis using create_bread by (simp add: bread_def)
qed

theorem C4_create_defaults_witness:
  "\<exists>row. tasks (shop\<lparr>tasks := [milk, report, bread]\<rparr>) = tasks shop @ [row]
      \<and> task_id row = 30 \<and> user_id row = 1 \<and> created_at row = 9 \<and> updated_at row = 9
      \<and> status row = ''todo'' \<and> priority row = ''medium'' \<and> description row = None
      \<and> due_date row = None
      \<and> bread\<lparr>description := Some []\<rparr> = row\<lparr>description := Some []\<rparr>"
proof -
  have b: "in_status buy_bread = None" "in_priority buy_bread = None"
    "in_description buy_bread = None" "in_due_date buy_bread = Undefined"
    by (simp_all add: buy_bread_def input0_def)
  from C4_create_defaults[of toy_timestamptz 30 9 shop 1 buy_bread "bread\<lparr>description := Some []\<rparr>"
      "shop\<lparr>tasks := [milk, report, bread]\<rparr>", THEN mp, OF create_bread]
  obtain row where
    1: "tasks (shop\<lparr>tasks := [milk, report, bread]\<rparr>) = tasks shop @ [row]"
    and 2: "task_id row = 30" "user_id row = 1" "created_at row = 9" "updated_at row = 9"
    and 3: "in_status buy_bread = None \<longrightarrow> status row = ''todo''"
    "in_priority buy_bread = None \<longrightarrow> priority row = ''medium''"
    "in_description buy_bread = None \<longrightarrow> description row = None \<and> description (bread\<lparr>description := Some []\<rparr>) = Some []"
    "in_due_date buy_bread = Undefined \<longrightarrow> due_date row = None"
    and 4: "bread\<lparr>description := Some []\<rparr>
       = row\<lparr>description := Some (case description row of None \<Rightarrow> [] | Some d \<Rightarrow> d)\<rparr>"
    by (elim exE conjE)
  from 3 b have 5: "status row = ''todo''" "priority row = ''medium''" "description row = None"
    "due_date row = None" by blast+
  from 4 5 have 6: "bread\<lparr>description := Some []\<rparr> = row\<lparr>description := Some []\<rparr>"
    by (simp only: option.case)
  show ?thesis
    apply (rule exI[of _ row])
    apply (intro conjI)
    apply (rule 1 2 5 6)+
    done
qed

section \<open>Titles\<close>

text \<open>
  Claim C5 says that every operation keeps the stored title non-empty. Create rejects a
  blank title; update trims the title and stores it without that check, so the owner's
  update with the title of three spaces stores the empty title and answers 200.
\<close>

theorem C5_blank_title_update:
  "patch_handler parse 99 shop 1 10 (input0\<lparr>in_title := Some ''   ''\<rparr>)
     = (Reply 200 (TaskBody (milk\<lparr>title := [], description := Some [], updated_at := 99\<rparr>)),
        shop\<lparr>tasks := [milk\<lparr>title := [], updated_at := 99\<rparr>, report]\<rparr>)
   \<and> create_handler parse 30 9 shop 1 (input0\<lparr>in_title := Some ''   ''\<rparr>)
     = (Reply 400 (ErrorBody ''Title is required''), shop)"
  by (simp add: patch_handler_def input0_def defined_not_in_def patch_assignments_def
        shop_def milk_def report_def rowToTask_def store strs create_handler_def falsy_def)

section \<open>Due dates\<close>



section \<open>Facts about the list handler\<close>

lemma whereClause_list:
  "whereClause (list_conditions u st pr) r \<longleftrightarrow>
     user_id r = u \<and> (falsy st \<or> Some (status r) = st) \<and> (falsy pr \<or> Some (priority r) = pr)"
  by (auto simp: whereClause_def list_conditions_def truthy_def falsy_def split: option.splits)

lemma whereClause_list_fun:
  "whereClause (list_conditions u st pr) =
     (\<lambda>r. user_id r = u \<and> (falsy st \<or> Some (status r) = st) \<and> (falsy pr \<or> Some (priority r) = pr))"
  by (rule ext) (rule whereClause_list)

lemma list_limit_cases:
  "list_limit l = (case parseInt (String_of l) of
                     NaN \<Rightarrow> Finite 20
                   | Finite n \<Rightarrow> if n = 0 then Finite 20 else Finite (min 100 (max 1 n))
                   | PosInfinity \<Rightarrow> Finite 100
                   | NegInfinity \<Rightarrow> Finite 1)"
  by (simp add: list_limit_def orDefault_def split: number.splits)

lemma list_limit_range: "\<exists>k. list_limit l = Finite k \<and> 1 \<le> k \<and> k \<le> 100"
  by (simp add: list_limit_cases split: number.splits)

lemma list_page_cases:
  "list_page p = (case parseInt (String_of p) of
                    NaN \<Rightarrow> Finite 1
                  | Finite n \<Rightarrow> Finite (max 1 n)
                  | PosInfinity \<Rightarrow> PosInfinity
                  | NegInfinity \<Rightarrow> Finite 1)"
  by (simp add: list_page_def orDefault_def split: number.splits)

lemma list_page_ge1: "list_page p = Finite pg \<Longrightarrow> 1 \<le> pg"
  by (auto simp: list_page_cases split: number.splits)

lemma offset_exact:
  assumes "1 \<le> pg" and "1 \<le> k" and "(pg - 1) * k \<le> 9007199254740992"
  shows "js_times (js_minus (Finite pg) (Finite 1)) (Finite k) = Finite ((pg - 1) * k)"
    and "bigint_in (Finite ((pg - 1) * k)) = Inr ((pg - 1) * k)"
proof -
  have nn: "0 \<le> pg - 1" using assms by simp
  have "pg - 1 \<le> (pg - 1) * k" using nn assms(2) by (simp add: mult_le_cancel_left1)
  then have a: "abs (pg - 1) \<le> 9007199254740992" using nn assms(3) by simp
  have b: "abs ((pg - 1) * k) \<le> 9007199254740992" using nn assms by (simp add: abs_mult)
  show "js_times (js_minus (Finite pg) (Finite 1)) (Finite k) = Finite ((pg - 1) * k)"
    by (simp add: round_double_exact[OF a] round_double_exact[OF b])
  have "0 \<le> (pg - 1) * k" using nn assms(2) by simp
  then show "bigint_in (Finite ((pg - 1) * k)) = Inr ((pg - 1) * k)"
    using assms(3) by (simp add: bigint_in_def)
qed

lemma bigint_in_limit: "1 \<le> k \<Longrightarrow> k \<le> 100 \<Longrightarrow> bigint_in (Finite k) = Inr k"
  by (simp add: bigint_in_def)

lemma list_page_shape: "list_page p = PosInfinity \<or> (\<exists>pg. list_page p = Finite pg \<and> 1 \<le> pg)"
  by (simp add: list_page_cases split: number.splits)

lemma bigint_in_Inr: "bigint_in x = Inr off \<Longrightarrow> x = Finite off"
  by (cases x) (auto simp: bigint_in_def split: if_splits)

lemma offset_nonneg:
  assumes k: "1 \<le> k"
    and off: "bigint_in (js_times (js_minus (list_page p) (Finite 1)) (Finite k)) = Inr off"
  shows "0 \<le> off"
proof -
  from list_page_shape[of p] show ?thesis
  proof
    assume "list_page p = PosInfinity"
    with off k show ?thesis by (simp add: bigint_in_def)
  next
    assume "\<exists>pg. list_page p = Finite pg \<and> 1 \<le> pg"
    then obtain pg where pg: "list_page p = Finite pg" "1 \<le> pg" by blast
    have nn: "0 \<le> pg - 1" using pg by simp
    from round_double_nonneg[OF nn] show ?thesis
    proof
      assume inf: "round_double (pg - 1) = PosInfinity"
      with off pg k show ?thesis by (simp add: bigint_in_def)
    next
      assume "\<exists>a. 0 \<le> a \<and> round_double (pg - 1) = Finite a"
      then obtain a where a: "0 \<le> a" "round_double (pg - 1) = Finite a" by blast
      have ak: "0 \<le> a * k" using a k by simp
      from off pg a have "bigint_in (round_double (a * k)) = Inr off" by simp
      then have r: "round_double (a * k) = Finite off" by (rule bigint_in_Inr)
      from round_double_nonneg[OF ak] r show ?thesis by auto
    qed
  qed
qed

lemma list_handler_eq:
  assumes L: "list_limit (q_limit q) = Finite k"
  shows "list_handler tie db u q =
       (if truthy_not_in (q_status q) STATUSES then Reply 400 (ErrorBody ''Invalid status'')
        else if truthy_not_in (q_priority q) PRIORITIES then Reply 400 (ErrorBody ''Invalid priority'')
        else (case bigint_in (js_times (js_minus (list_page (q_page q)) (Finite 1)) (Finite k)) of
                Inl e \<Rightarrow> NextErr e
              | Inr off \<Rightarrow>
                  Reply 200
                    (ListBody
                      (map rowToTask
                        (take (nat k)
                          (drop (nat off)
                            (newest_first
                              (tie (filter (\<lambda>r. user_id r = u
                                     \<and> (falsy (q_status q) \<or> Some (status r) = q_status q)
                                     \<and> (falsy (q_priority q) \<or> Some (priority r) = q_priority q))
                                   (tasks db)))))))
                      (length (filter (\<lambda>r. user_id r = u
                                     \<and> (falsy (q_status q) \<or> Some (status r) = q_status q)
                                     \<and> (falsy (q_priority q) \<or> Some (priority r) = q_priority q))
                                   (tasks db)))
                      (list_page (q_page q)) (Finite k))))"
proof -
  from list_limit_range[of "q_limit q"] L have k: "1 \<le> k" "k \<le> 100" by auto
  have bl: "bigint_in (Finite k) = Inr k" using k by (rule bigint_in_limit)
  show ?thesis
  proof (cases "bigint_in (js_times (js_minus (list_page (q_page q)) (Finite 1)) (Finite k))")
    case (Inl e)
    then show ?thesis
      by (simp add: list_handler_def list_rows_def Let_def L bl)
  next
    case (Inr off)
    then have "0 \<le> off" using offset_nonneg[OF k(1)] by blast
    then show ?thesis using Inr k
      by (simp add: list_handler_def list_rows_def Let_def L bl whereClause_list_fun)
  qed
qed

lemmas data = pantry_def shop_def larder_def crowd_def chore_def alice_def bob_def eggs_def
  flour_def report_def milk_def

lemmas listing = list_handler_def list_rows_def list_conditions_def whereClause_def
  truthy_not_in_def truthy_def list_page_def list_limit_def nums query_def rowToTask_def
  newest_first_def bigint_in_def as_stored_def first_two_exchanged_def

lemma list_handler_limit_cong:
  "list_limit a = list_limit c \<Longrightarrow>
   list_handler tie db u (q\<lparr>q_limit := a\<rparr>) = list_handler tie db u (q\<lparr>q_limit := c\<rparr>)"
  by (simp add: list_handler_def Let_def)

lemma list_handler_page_cong:
  "list_page a = list_page c \<Longrightarrow>
   list_handler tie db u (q\<lparr>q_page := a\<rparr>) = list_handler tie db u (q\<lparr>q_page := c\<rparr>)"
  by (simp add: list_handler_def Let_def)

lemma limit_zero:
  "list_handler as_stored pantry 1 (query None (Some ''0''))
     = Reply 200 (ListBody [eggs\<lparr>description := Some []\<rparr>, flour] 2 (Finite 1) (Finite 20))"
  by (simp add: listing data)

lemma page_two_of_pantry:
  "list_handler as_stored pantry 1 (query (Some ''2'') (Some ''1''))
     = Reply 200 (ListBody [flour] 2 (Finite 2) (Finite 1))"
  by (simp add: listing data)

text \<open>
  Beyond \<open>2 ^ 53\<close> the page is the nearest double, and an offset beyond the store's
  64-bit range makes the list query fail.
\<close>

lemma large_pages:
  "list_page (Some ''9007199254740993'') = Finite 9007199254740992
   \<and> list_handler as_stored pantry 1 (query (Some ''1000000000000000000'') None) = NextErr ''22003''"
  by (simp add: listing data round_double_def bit_length.simps)

lemma tie_ok_as_stored: "tie_ok as_stored"
  by (simp add: tie_ok_def as_stored_def)

lemma tie_ok_first_two_exchanged: "tie_ok first_two_exchanged"
  by (auto simp: tie_ok_def first_two_exchanged_def split: list.splits)

lemma tie_ok_alternating: "tie_ok (alternating p)"
  by (simp add: tie_ok_def alternating_def)


lemma sorted_newest_first:
  "sorted_wrt (\<lambda>a b. created_at b \<le> created_at a) (newest_first (rows :: task_row list))"
  using sorted_sort_key[of "\<lambda>r. - created_at r" rows]
  by (simp add: newest_first_def sorted_wrt_map)

lemma newest_first_tie:
  assumes ok: "tie_ok tie" and d: "distinct (map created_at rows)"
  shows "newest_first (tie rows) = newest_first rows"
proof -
  let ?f = "\<lambda>r. - created_at r"
  have m: "mset (tie rows) = mset rows" using ok by (simp add: tie_ok_def)
  have m1: "mset (newest_first (tie rows)) = mset rows" using m by (simp add: newest_first_def)
  have m2: "mset (newest_first rows) = mset rows" by (simp add: newest_first_def)
  have set1: "set (newest_first (tie rows)) = set rows" using m1 by (rule mset_eq_setD)
  have set2: "set (newest_first rows) = set rows" using m2 by (rule mset_eq_setD)
  have inj: "inj_on created_at (set rows)" using d by (simp add: distinct_map)
  then have inj': "inj_on ?f (set rows)" by (auto simp: inj_on_def)
  have dr: "distinct rows" using d by (simp add: distinct_map)
  have d1: "distinct (newest_first (tie rows))" using m1 dr by (metis mset_eq_imp_distinct_iff)
  have d2: "distinct (newest_first rows)" using m2 dr by (metis mset_eq_imp_distinct_iff)
  show ?thesis
  proof (rule map_sorted_distinct_set_unique[of ?f])
    show "inj_on ?f (set (newest_first (tie rows)) \<union> set (newest_first rows))"
      using inj' set1 set2 by simp
    show "sorted (map ?f (newest_first (tie rows)))" by (simp add: newest_first_def)
    show "distinct (map ?f (newest_first (tie rows)))" using d1 inj' set1 by (simp add: distinct_map)
    show "sorted (map ?f (newest_first rows))" by (simp add: newest_first_def)
    show "distinct (map ?f (newest_first rows))" using d2 inj' set2 by (simp add: distinct_map)
    show "set (newest_first (tie rows)) = set (newest_first rows)" using set1 set2 by simp
  qed
qed

lemma concat_pages:
  "concat (map (\<lambda>k. take l (drop (k * l) ys)) [0..<n]) = take (n * l) ys"
proof (induction n)
  case 0
  then show ?case by simp
next
  case (Suc n)
  have "take (Suc n * l) ys = take (n * l) ys @ take l (drop (n * l) ys)"
    using take_add[of "n * l" l ys] by (simp add: add.commute)
  with Suc show ?case by simp
qed

lemma list_ok:
  assumes "list_handler tie db u q = Reply 200 (ListBody rows cnt page limit)"
  shows "\<exists>l off. rows = map rowToTask (take l (drop off
           (newest_first (tie (filter (whereClause (list_conditions u (q_status q) (q_priority q)))
                                (tasks db))))))"
  using assms
  by (auto simp: list_handler_def list_rows_def Let_def split: if_splits sum.splits)

lemma created_at_rowToTask: "created_at (rowToTask r) = created_at r"
  by (simp add: rowToTask_def)


lemma list_sorted:
  assumes "list_handler tie db u q = Reply 200 (ListBody rows cnt page limit)"
  shows "sorted_wrt (\<lambda>a b. created_at b \<le> created_at a) rows"
proof -
  from list_ok[OF assms] obtain l off where
    rows: "rows = map rowToTask (take l (drop off
           (newest_first (tie (filter (whereClause (list_conditions u (q_status q) (q_priority q)))
                                (tasks db))))))"
    by blast
  have "sorted_wrt (\<lambda>a b. created_at b \<le> created_at a) (take l (drop off
           (newest_first (tie (filter (whereClause (list_conditions u (q_status q) (q_priority q)))
                                (tasks db))))))"
    by (intro sorted_wrt_take sorted_wrt_drop sorted_newest_first)
  then show ?thesis unfolding rows by (simp add: sorted_wrt_map created_at_rowToTask)
qed

lemma list_page_p:
  assumes ties: "tie_ok tie"
    and v: "\<not> truthy_not_in (q_status q) STATUSES" "\<not> truthy_not_in (q_priority q) PRIORITIES"
    and d: "distinct (map created_at
              (filter (whereClause (list_conditions u (q_status q) (q_priority q))) (tasks db)))"
    and L: "list_limit (q_limit q) = Finite l"
    and P: "list_page s = Finite (int p)"
    and small: "(int p - 1) * l \<le> 9007199254740992"
  shows "list_handler tie db u (q\<lparr>q_page := s\<rparr>) =
           Reply 200 (ListBody
             (map rowToTask (take (nat l) (drop ((p - 1) * nat l)
                (newest_first (filter (whereClause (list_conditions u (q_status q) (q_priority q)))
                                 (tasks db))))))
             (length (filter (whereClause (list_conditions u (q_status q) (q_priority q))) (tasks db)))
             (Finite (int p)) (Finite l))"
proof -
  let ?q = "q\<lparr>q_page := s\<rparr>"
  from list_limit_range[of "q_limit q"] L have l: "1 \<le> l" "l \<le> 100" by auto
  have p1: "1 \<le> int p" using P by (rule list_page_ge1)
  have L': "list_limit (q_limit ?q) = Finite l" using L by simp
  have off: "bigint_in (js_times (js_minus (list_page (q_page ?q)) (Finite 1)) (Finite l))
               = Inr ((int p - 1) * l)"
    using offset_exact[OF p1 l(1) small] P by simp
  have n: "nat ((int p - 1) * l) = (p - 1) * nat l"
    using p1 l by (simp add: nat_mult_distrib nat_diff_distrib')
  show ?thesis
    unfolding list_handler_eq[OF L', of tie db u]
    using v off P n newest_first_tie[OF ties d]
    by (simp add: whereClause_list_fun)
qed

lemma crowd_page_one:
  "list_handler as_stored crowd 1 (query (Some ''1'') (Some ''1''))
     = Reply 200 (ListBody [chore 101] 5 (Finite 1) (Finite 1))"
  by (simp add: listing data)

lemma crowd_page_two:
  "list_handler first_two_exchanged crowd 1 (query (Some ''2'') (Some ''1''))
     = Reply 200 (ListBody [chore 101] 5 (Finite 2) (Finite 1))"
  by (simp add: listing data)

lemma larder_matching:
  "filter (whereClause (list_conditions 1 (q_status (query None (Some ''1'')))
                          (q_priority (query None (Some ''1''))))) (tasks larder) = [eggs, milk]"
  by (simp add: listing data)


section \<open>Pagination\<close>

text \<open>
  Claim C7, as amended. The effective limit is 20 when the supplied limit is absent,
  is not a number or is 0, and otherwise the supplied limit clamped to [1, 100]. The
  effective page is 1 when the supplied page is absent, not a number, 0 or negative,
  and otherwise the supplied page as \<open>parseInt\<close> reads it: exactly up to \<open>2 ^ 53\<close>,
  beyond that as the nearest double. With valid filters the offset is
  (page - 1) * limit in double arithmetic, which is that product itself whenever it
  is at most \<open>2 ^ 53\<close>; the request answers 200 with the effective page and limit, the
  number of matching rows and the rows left after skipping exactly the offset, at most
  limit many, or hands the store's error on when the store cannot take the offset. So
  limit=500 is answered as limit=100, and page=0 and every negative page as page=1.
\<close>

theorem C7_list_pagination:
  "list_limit l = (case parseInt (String_of l) of
                     NaN \<Rightarrow> Finite 20
                   | Finite n \<Rightarrow> if n = 0 then Finite 20 else Finite (min 100 (max 1 n))
                   | PosInfinity \<Rightarrow> Finite 100
                   | NegInfinity \<Rightarrow> Finite 1)
   \<and> list_limit None = Finite 20
   \<and> list_page p = (case parseInt (String_of p) of
                      NaN \<Rightarrow> Finite 1
                    | Finite n \<Rightarrow> Finite (max 1 n)
                    | PosInfinity \<Rightarrow> PosInfinity
                    | NegInfinity \<Rightarrow> Finite 1)
   \<and> list_page None = Finite 1
   \<and> (\<forall>n. abs n \<le> 9007199254740992 \<longrightarrow> round_double n = Finite n)
   \<and> (\<exists>k. list_limit (q_limit q) = Finite k \<and> 1 \<le> k \<and> k \<le> 100
          \<and> list_handler tie db u q =
              (if truthy_not_in (q_status q) STATUSES then Reply 400 (ErrorBody ''Invalid status'')
               else if truthy_not_in (q_priority q) PRIORITIES
               then Reply 400 (ErrorBody ''Invalid priority'')
               else (case bigint_in (js_times (js_minus (list_page (q_page q)) (Finite 1)) (Finite k)) of
                       Inl e \<Rightarrow> NextErr e
                     | Inr off \<Rightarrow>
                         Reply 200
                           (ListBody
                             (map rowToTask
                               (take (nat k)
                                 (drop (nat off)
                                   (newest_first
                                     (tie (filter (\<lambda>r. user_id r = u
                                            \<and> (falsy (q_status q) \<or> Some (status r) = q_status q)
                                            \<and> (falsy (q_priority q) \<or> Some (priority r) = q_priority q))
                                          (tasks db)))))))
                             (length (filter (\<lambda>r. user_id r = u
                                            \<and> (falsy (q_status q) \<or> Some (status r) = q_status q)
                                            \<and> (falsy (q_priority q) \<or> Some (priority r) = q_priority q))
                                          (tasks db)))
                             (list_page (q_page q)) (Finite k))))
          \<and> (\<forall>pg. list_page (q_page q) = Finite pg \<and> (pg - 1) * k \<le> 9007199254740992 \<longrightarrow>
                 bigint_in (js_times (js_minus (list_page (q_page q)) (Finite 1)) (Finite k))
                   = Inr ((pg - 1) * k)))
   \<and> list_handler tie db u (q\<lparr>q_limit := Some ''500''\<rparr>)
       = list_handler tie db u (q\<lparr>q_limit := Some ''100''\<rparr>)
   \<and> list_handler tie db u (q\<lparr>q_page := Some ''0''\<rparr>)
       = list_handler tie db u (q\<lparr>q_page := Some ''1''\<rparr>)
   \<and> (\<forall>s n. parseInt s = Finite n \<and> n \<le> 0 \<longrightarrow>
         list_handler tie db u (q\<lparr>q_page := Some s\<rparr>)
           = list_handler tie db u (q\<lparr>q_page := Some ''1''\<rparr>))"
proof -
  have dl: "list_limit None = Finite 20" by (simp add: list_limit_def nums)
  have dp: "list_page None = Finite 1" by (simp add: list_page_def nums)
  have ex: "\<forall>n. abs n \<le> 9007199254740992 \<longrightarrow> round_double n = Finite n"
    using round_double_exact by blast
  from list_limit_range[of "q_limit q"] obtain k where
    k: "list_limit (q_limit q) = Finite k" "1 \<le> k" "k \<le> 100" by blast
  have off: "\<forall>pg. list_page (q_page q) = Finite pg \<and> (pg - 1) * k \<le> 9007199254740992 \<longrightarrow>
                 bigint_in (js_times (js_minus (list_page (q_page q)) (Finite 1)) (Finite k))
                   = Inr ((pg - 1) * k)"
  proof (intro allI impI)
    fix pg assume a: "list_page (q_page q) = Finite pg \<and> (pg - 1) * k \<le> 9007199254740992"
    then have pg: "1 \<le> pg" using list_page_ge1 by blast
    from offset_exact[OF pg k(2)] a
    show "bigint_in (js_times (js_minus (list_page (q_page q)) (Finite 1)) (Finite k))
            = Inr ((pg - 1) * k)"
      by simp
  qed
  have c500: "list_limit (Some ''500'') = list_limit (Some ''100'')" by (simp add: list_limit_def nums)
  have one: "list_page (Some ''1'') = Finite 1" by (simp add: list_page_def nums)
  have c0: "list_page (Some ''0'') = list_page (Some ''1'')" by (simp add: list_page_def nums)
  have neg: "list_page (Some s) = list_page (Some ''1'')" if "parseInt s = Finite n \<and> n \<le> 0" for s n
    using that unfolding one by (simp add: list_page_cases String_of_def)
  have H500: "list_handler tie db u (q\<lparr>q_limit := Some ''500''\<rparr>)
       = list_handler tie db u (q\<lparr>q_limit := Some ''100''\<rparr>)"
    using c500 by (rule list_handler_limit_cong)
  have H0: "list_handler tie db u (q\<lparr>q_page := Some ''0''\<rparr>)
       = list_handler tie db u (q\<lparr>q_page := Some ''1''\<rparr>)"
    using c0 by (rule list_handler_page_cong)
  have Hneg: "\<forall>s n. parseInt s = Finite n \<and> n \<le> 0 \<longrightarrow>
         list_handler tie db u (q\<lparr>q_page := Some s\<rparr>)
           = list_handler tie db u (q\<lparr>q_page := Some ''1''\<rparr>)"
    using neg list_handler_page_cong by blast
  show ?thesis
    using list_limit_cases[of l] dl list_page_cases[of p] dp ex k list_handler_eq[OF k(1), of tie db u]
      off H500 H0 Hneg
    by blast
qed

text \<open>
  The claim as stated clamps every supplied limit to [1, 100], so limit=0 would be 1.
  The handler takes 0 for a missing value: the limit is 20, and both of the caller's
  tasks are listed.
\<close>

theorem C7_limit_zero_counterexample:
  "list_limit (Some ''0'') = Finite 20
   \<and> list_limit (Some ''0'') \<noteq> Finite (min 100 (max 1 0))
   \<and> list_handler as_stored pantry 1 (query None (Some ''0''))
       = Reply 200 (ListBody [eggs\<lparr>description := Some []\<rparr>, flour] 2 (Finite 1) (Finite 20))"
  using limit_zero by (simp add: list_limit_def nums)

theorem C7_list_pagination_witness:
  "list_limit (Some ''500'') = Finite 100 \<and> list_page (Some ''-3'') = Finite 1
   \<and> list_handler as_stored pantry 1 (query (Some ''2'') (Some ''1''))
       = Reply 200 (ListBody [flour] 2 (Finite 2) (Finite 1))
   \<and> list_handler as_stored pantry 1 (query (Some ''2'') (Some ''1'')\<lparr>q_page := Some ''-3''\<rparr>)
       = list_handler as_stored pantry 1 (query (Some ''2'') (Some ''1'')\<lparr>q_page := Some ''1''\<rparr>)"
proof -
  note c = C7_list_pagination[of "Some ''500''" "Some ''-3''" "query (Some ''2'') (Some ''1'')"
      as_stored pantry 1]
  have 1: "list_limit (Some ''500'')
            = (case parseInt (String_of (Some ''500'')) of
                     NaN \<Rightarrow> Finite 20
                   | Finite n \<Rightarrow> if n = 0 then Finite 20 else Finite (min 100 (max 1 n))
                   | PosInfinity \<Rightarrow> Finite 100
                   | NegInfinity \<Rightarrow> Finite 1)"
    using c by (rule conjunct1)
  have 2: "list_page (Some ''-3'')
            = (case parseInt (String_of (Some ''-3'')) of
                      NaN \<Rightarrow> Finite 1
                    | Finite n \<Rightarrow> Finite (max 1 n)
                    | PosInfinity \<Rightarrow> PosInfinity
                    | NegInfinity \<Rightarrow> Finite 1)"
    using c by blast
  from c have neg: "\<forall>s n. parseInt s = Finite n \<and> n \<le> 0 \<longrightarrow>
         list_handler as_stored pantry 1 (query (Some ''2'') (Some ''1'')\<lparr>q_page := Some s\<rparr>)
           = list_handler as_stored pantry 1 (query (Some ''2'') (Some ''1'')\<lparr>q_page := Some ''1''\<rparr>)"
    by blast
  have p3: "parseInt ''-3'' = Finite (- 3) \<and> (- 3 :: int) \<le> 0" by (simp add: nums)
  have 4: "list_handler as_stored pantry 1 (query (Some ''2'') (Some ''1'')\<lparr>q_page := Some ''-3''\<rparr>)
       = list_handler as_stored pantry 1 (query (Some ''2'') (Some ''1'')\<lparr>q_page := Some ''1''\<rparr>)"
    using neg p3 by blast
  have a: "list_limit (Some ''500'') = Finite 100" unfolding 1 by (simp add: nums)
  have b: "list_page (Some ''-3'') = Finite 1" unfolding 2 by (simp add: nums)
  from a b page_two_of_pantry 4 show ?thesis by blast
qed

section \<open>Order of the listing\<close>

text \<open>
  Claim C6, as amended. Every page is ordered by creation time, descending. The query
  names no second key, so the order among tasks of equal creation time is the store's
  choice for each query. When the matching tasks have pairwise distinct creation times,
  n requests for the pages 1 to n with one limit and one filter, each under any choice
  of the store, answer 200 with the slices of the matching tasks, newest first; taken
  together they are the first n * limit of them, and once n * limit reaches their
  number every matching task is on exactly one page.
\<close>

theorem C6_list_order:
  "(list_handler tie db u q = Reply 200 (ListBody rows cnt page limit)
      \<longrightarrow> sorted_wrt (\<lambda>a b. created_at b \<le> created_at a) rows)
   \<and> ((\<forall>p. tie_ok (ties p))
        \<and> \<not> truthy_not_in (q_status q) STATUSES \<and> \<not> truthy_not_in (q_priority q) PRIORITIES
        \<and> distinct (map created_at
             (filter (whereClause (list_conditions u (q_status q) (q_priority q))) (tasks db)))
        \<and> list_limit (q_limit q) = Finite l \<and> int n * l \<le> 9007199254740992
        \<and> (\<forall>p \<in> {1..n}. list_page (pg p) = Finite (int p))
      \<longrightarrow> (\<forall>p \<in> {1..n}.
              list_handler (ties p) db u (q\<lparr>q_page := pg p\<rparr>) =
                Reply 200 (ListBody
                  (map rowToTask (take (nat l) (drop ((p - 1) * nat l)
                     (newest_first
                        (filter (whereClause (list_conditions u (q_status q) (q_priority q)))
                           (tasks db))))))
                  (length (filter (whereClause (list_conditions u (q_status q) (q_priority q)))
                             (tasks db)))
                  (Finite (int p)) (Finite l)))
          \<and> concat (map (\<lambda>p. data_of (list_handler (ties p) db u (q\<lparr>q_page := pg p\<rparr>))) [1..<Suc n])
              = map rowToTask (take (n * nat l)
                  (newest_first
                     (filter (whereClause (list_conditions u (q_status q) (q_priority q)))
                        (tasks db))))
          \<and> (length (filter (whereClause (list_conditions u (q_status q) (q_priority q))) (tasks db))
                \<le> n * nat l
              \<longrightarrow> mset (concat (map (\<lambda>p. data_of (list_handler (ties p) db u (q\<lparr>q_page := pg p\<rparr>)))
                                  [1..<Suc n]))
                    = mset (map rowToTask
                         (filter (whereClause (list_conditions u (q_status q) (q_priority q)))
                            (tasks db)))
                  \<and> distinct (concat (map (\<lambda>p. data_of (list_handler (ties p) db u
                                                             (q\<lparr>q_page := pg p\<rparr>)))
                                        [1..<Suc n]))))"
proof (intro conjI impI)
  assume "list_handler tie db u q = Reply 200 (ListBody rows cnt page limit)"
  then show "sorted_wrt (\<lambda>a b. created_at b \<le> created_at a) rows" by (rule list_sorted)
next
  let ?M = "filter (whereClause (list_conditions u (q_status q) (q_priority q))) (tasks db)"
  let ?ys = "newest_first ?M"
  let ?pages = "concat (map (\<lambda>p. data_of (list_handler (ties p) db u (q\<lparr>q_page := pg p\<rparr>)))
                          [1..<Suc n])"
  assume A: "(\<forall>p. tie_ok (ties p))
        \<and> \<not> truthy_not_in (q_status q) STATUSES \<and> \<not> truthy_not_in (q_priority q) PRIORITIES
        \<and> distinct (map created_at ?M)
        \<and> list_limit (q_limit q) = Finite l \<and> int n * l \<le> 9007199254740992
        \<and> (\<forall>p \<in> {1..n}. list_page (pg p) = Finite (int p))"
  from list_limit_range[of "q_limit q"] A have l: "1 \<le> l" by auto
  have each: "list_handler (ties p) db u (q\<lparr>q_page := pg p\<rparr>) =
                Reply 200 (ListBody
                  (map rowToTask (take (nat l) (drop ((p - 1) * nat l) ?ys)))
                  (length ?M) (Finite (int p)) (Finite l))"
    if p: "p \<in> {1..n}" for p
  proof -
    have "int p - 1 \<le> int n" using p by simp
    then have "(int p - 1) * l \<le> int n * l" using l by (simp add: mult_right_mono)
    then have small: "(int p - 1) * l \<le> 9007199254740992" using A by linarith
    show ?thesis
      using A p small by (intro list_page_p) auto
  qed
  then show "\<forall>p \<in> {1..n}.
              list_handler (ties p) db u (q\<lparr>q_page := pg p\<rparr>) =
                Reply 200 (ListBody
                  (map rowToTask (take (nat l) (drop ((p - 1) * nat l) ?ys)))
                  (length ?M) (Finite (int p)) (Finite l))"
    by blast
  have "?pages = concat (map (\<lambda>p. map rowToTask (take (nat l) (drop ((p - 1) * nat l) ?ys)))
                          [1..<Suc n])"
  proof -
    have "data_of (list_handler (ties p) db u (q\<lparr>q_page := pg p\<rparr>))
            = map rowToTask (take (nat l) (drop ((p - 1) * nat l) ?ys))"
      if "p \<in> set [1..<Suc n]" for p
    proof -
      from that have "p \<in> {1..n}" by auto
      from each[OF this] show ?thesis by simp
    qed
    then show ?thesis by (metis (no_types, lifting) map_cong)
  qed
  also have "\<dots> = concat (map (\<lambda>k. map rowToTask (take (nat l) (drop (k * nat l) ?ys))) [0..<n])"
  proof -
    have "[1..<Suc n] = map Suc [0..<n]"
      unfolding One_nat_def by (rule map_Suc_upt[symmetric])
    then show ?thesis by (simp only: map_map comp_def diff_Suc_1)
  qed
  also have "\<dots> = map rowToTask (concat (map (\<lambda>k. take (nat l) (drop (k * nat l) ?ys)) [0..<n]))"
    by (simp add: map_concat comp_def)
  also have "\<dots> = map rowToTask (take (n * nat l) ?ys)"
    by (simp only: concat_pages)
  finally show P: "?pages = map rowToTask (take (n * nat l) ?ys)" .
  have mn: "mset ?ys = mset ?M" by (simp add: newest_first_def)
  have dk: "distinct (map created_at ?ys)"
    using A mn by (metis mset_map mset_eq_imp_distinct_iff)
  {
    assume len: "length ?M \<le> n * nat l"
    have "length ?ys = length ?M" by (simp add: newest_first_def)
    with len P have all: "?pages = map rowToTask ?ys" by simp
    show "mset ?pages = mset (map rowToTask ?M)" unfolding all using mn by simp
    have "distinct (map created_at (map rowToTask ?ys))"
      using dk by (simp add: comp_def created_at_rowToTask)
    then show "distinct ?pages" unfolding all by (metis distinct_map)
  }
qed

text \<open>
  The claim as stated has ties broken by insertion order, the same way in every query.
  Five tasks of the caller share a creation time and the limit is 1. For page 1 the
  store's sort meets the rows as stored; for page 2 it keeps a heap of two rows, which
  leaves the first two exchanged. Both pages hold the first task, and the second task
  is on neither.
\<close>

theorem C6_ties_counterexample:
  "tie_ok as_stored \<and> tie_ok first_two_exchanged
   \<and> map created_at (tasks crowd) = [3, 3, 3, 3, 3]
   \<and> list_handler as_stored crowd 1 (query (Some ''1'') (Some ''1''))
       = Reply 200 (ListBody [chore 101] 5 (Finite 1) (Finite 1))
   \<and> list_handler first_two_exchanged crowd 1 (query (Some ''2'') (Some ''1''))
       = Reply 200 (ListBody [chore 101] 5 (Finite 2) (Finite 1))"
  using tie_ok_as_stored tie_ok_first_two_exchanged crowd_page_one crowd_page_two
  by (simp add: crowd_def chore_def)

theorem C6_list_order_witness:
  "list_handler (alternating 1) larder 1 (query None (Some ''1'')\<lparr>q_page := page_text 1\<rparr>)
     = Reply 200 (ListBody [milk\<lparr>description := Some []\<rparr>] 2 (Finite 1) (Finite 1))
   \<and> list_handler (alternating 2) larder 1 (query None (Some ''1'')\<lparr>q_page := page_text 2\<rparr>)
     = Reply 200 (ListBody [eggs\<lparr>description := Some []\<rparr>] 2 (Finite 2) (Finite 1))
   \<and> concat (map (\<lambda>p. data_of (list_handler (alternating p) larder 1
                                    (query None (Some ''1'')\<lparr>q_page := page_text p\<rparr>))) [1..<Suc 2])
       = [milk\<lparr>description := Some []\<rparr>, eggs\<lparr>description := Some []\<rparr>]
   \<and> sorted_wrt (\<lambda>a b. created_at b \<le> created_at a) [milk\<lparr>description := Some []\<rparr>]"
proof -
  let ?q = "query None (Some ''1'')"
  note c = C6_list_order[of "alternating 1" larder 1 "?q\<lparr>q_page := page_text 1\<rparr>"
      "[milk\<lparr>description := Some []\<rparr>]" 2 "Finite 1" "Finite 1" alternating 1 2 page_text]
  have pt: "\<forall>p \<in> {1..2::nat}. list_page (page_text p) = Finite (int p)"
  proof
    fix p :: nat assume "p \<in> {1..2}"
    then have "p = 1 \<or> p = 2" by auto
    then show "list_page (page_text p) = Finite (int p)"
      by (auto simp: page_text_def list_page_def nums)
  qed
  have dist: "distinct (map created_at
             (filter (whereClause (list_conditions 1 (q_status (?q\<lparr>q_page := page_text 1\<rparr>))
                 (q_priority (?q\<lparr>q_page := page_text 1\<rparr>)))) (tasks larder)))"
    by (simp add: listing data)
  have h: "(\<forall>p. tie_ok (alternating p))
        \<and> \<not> truthy_not_in (q_status (?q\<lparr>q_page := page_text 1\<rparr>)) STATUSES
        \<and> \<not> truthy_not_in (q_priority (?q\<lparr>q_page := page_text 1\<rparr>)) PRIORITIES
        \<and> distinct (map created_at
             (filter (whereClause (list_conditions 1 (q_status (?q\<lparr>q_page := page_text 1\<rparr>))
                 (q_priority (?q\<lparr>q_page := page_text 1\<rparr>)))) (tasks larder)))
        \<and> list_limit (q_limit (?q\<lparr>q_page := page_text 1\<rparr>)) = Finite 1
        \<and> int 2 * 1 \<le> 9007199254740992
        \<and> (\<forall>p \<in> {1..2}. list_page (page_text p) = Finite (int p))"
    using tie_ok_alternating pt dist
    by (simp add: query_def truthy_not_in_def list_limit_def nums)
  have run1: "list_handler (alternating 1) larder 1 (?q\<lparr>q_page := page_text 1\<rparr>)
     = Reply 200 (ListBody [milk\<lparr>description := Some []\<rparr>] 2 (Finite 1) (Finite 1))"
    by (simp add: listing data page_text_def alternating_def)
  have run2: "list_handler (alternating 2) larder 1 (?q\<lparr>q_page := page_text 2\<rparr>)
     = Reply 200 (ListBody [eggs\<lparr>description := Some []\<rparr>] 2 (Finite 2) (Finite 1))"
    by (simp add: listing data page_text_def alternating_def)
  have s: "sorted_wrt (\<lambda>a b. created_at b \<le> created_at a) [milk\<lparr>description := Some []\<rparr>]"
    using c[THEN conjunct1, THEN mp, OF run1] .
  have cc: "concat (map (\<lambda>p. data_of (list_handler (alternating p) larder 1
                (?q\<lparr>q_page := page_text 1, q_page := page_text p\<rparr>))) [1..<Suc 2])
       = map rowToTask (take (2 * nat 1)
                  (newest_first
                     (filter (whereClause (list_conditions 1 (q_status (?q\<lparr>q_page := page_text 1\<rparr>))
                        (q_priority (?q\<lparr>q_page := page_text 1\<rparr>)))) (tasks larder))))"
    using c[THEN conjunct2, THEN mp, OF h, THEN conjunct2, THEN conjunct1] .
  have e: "map rowToTask (take (2 * nat 1)
                  (newest_first
                     (filter (whereClause (list_conditions 1 (q_status (?q\<lparr>q_page := page_text 1\<rparr>))
                        (q_priority (?q\<lparr>q_page := page_text 1\<rparr>)))) (tasks larder))))
           = [milk\<lparr>description := Some []\<rparr>, eggs\<lparr>description := Some []\<rparr>]"
    by (simp add: listing data)
  have u: "?q\<lparr>q_page := page_text 1, q_page := page_text p\<rparr> = ?q\<lparr>q_page := page_text p\<rparr>" for p
    by simp
  from cc have cc': "concat (map (\<lambda>p. data_of (list_handler (alternating p) larder 1
                                    (?q\<lparr>q_page := page_text p\<rparr>))) [1..<Suc 2])
       = [milk\<lparr>description := Some []\<rparr>, eggs\<lparr>description := Some []\<rparr>]"
    unfolding e u .
  from run1 run2 cc' s show ?thesis by blast
qed

section \<open>Row-level scoping\<close>




section \<open>Login failures\<close>



section \<open>Register, then login\<close>

lemma login_never_issues_token:
  "login_handler (config port nodeEnv databaseUrl) bcrypt_compare jwt_sign db b
     \<noteq> Reply 200 (LoginBody token i e n)"
  by (simp add: login_handler_def config_no_secret js_falsy_def invalid_credentials_def
      split: option.splits list.splits)

text \<open>
  Claim C2 says that a login after a registration with the same pair succeeds with a
  token. The run below registers alice@example.com / secret123 (status 201) and logs
  in with the same pair: the password matches, the handler reads \<open>config.jwtSecret\<close>,
  which the configuration object does not have, and answers 500 for every environment.
\<close>

theorem C2_login_after_register_misconfigured:
  "register_handler toy_hash 1 0 \<lparr>users = [], tasks = []\<rparr>
       (creds ''alice@example.com'' ''secret123'')
     = (Reply 201 (UserBody 1 ''alice@example.com'' None 0 0), \<lparr>users = [alice], tasks = []\<rparr>)
   \<and> login_handler (config port nodeEnv databaseUrl) toy_compare jwt_sign
        \<lparr>users = [alice], tasks = []\<rparr> (creds ''alice@example.com'' ''secret123'')
     = Reply 500 (ErrorBody ''Server misconfiguration'')"
  by (simp add: register_handler_def login_handler_def insert_user_def user_violation_def
      creds_def alice_def toy_hash_def toy_compare_def trim_def isWhiteSpace_def trimOrNull_def
      SALT_ROUNDS_def property_def config_def js_falsy_def Let_def)

section \<open>The authentication middleware\<close>

lemma authenticate_no_token:
  "bearer_token h = None \<or> bearer_token h = Some [] \<Longrightarrow>
   authenticate cfg verify h = Rejected (Reply 401 (ErrorBody ''No token provided''))"
  by (auto simp: authenticate_def)

lemma authenticate_never_verifies:
  "authenticate (config port nodeEnv databaseUrl) verify h
     \<in> {Rejected (Reply 401 (ErrorBody ''No token provided'')),
        Rejected (Reply 500 (ErrorBody ''Server misconfiguration''))}"
  by (simp add: authenticate_def config_no_secret js_falsy_def split: option.splits)

lemma verify_callback_codes:
  "verify_callback (Inl err) =
     (if err_name err = ''TokenExpiredError''
      then Rejected (Reply 401 (TokenErrorBody ''Token expired'' (ExpiredAt (expiredAt err)) ''TOKEN_EXPIRED''))
      else if err_name err = ''NotBeforeError''
      then Rejected (Reply 401 (TokenErrorBody ''Token not yet valid'' (ValidFrom (date err)) ''TOKEN_NOT_ACTIVE''))
      else Rejected (Reply 401 (TokenErrorBody ''Invalid token'' (Message (err_message err)) ''TOKEN_INVALID'')))"
  by (simp add: verify_callback_def)

lemma authenticate_with_secret:
  "bearer_token h = Some token \<Longrightarrow> token \<noteq> [] \<Longrightarrow> \<not> js_falsy (property cfg ''jwtSecret'') \<Longrightarrow>
   authenticate cfg verify h = verify_callback (verify token (property cfg ''jwtSecret''))"
  by (simp add: authenticate_def)

lemma bearer_token_None_iff:
  "bearer_token h = None \<longleftrightarrow> (h = None \<or> (\<exists>x. h = Some x \<and> take 7 x \<noteq> ''Bearer ''))"
  by (auto simp: bearer_token_def split: option.splits)

text \<open>
  Claim C9 says that a token that fails verification is answered with the verifier's
  own failure (expired, not yet valid, malformed). With the configuration object of
  \<open>config.ts\<close> every request that carries a bearer token is answered 500 before the
  verifier is called, whatever the verifier would report.
\<close>

theorem C9_bearer_token_misconfigured:
  "authenticate (config port nodeEnv databaseUrl) verify (Some ''Bearer abc.def.ghi'')
     = Rejected (Reply 500 (ErrorBody ''Server misconfiguration''))"
  by (simp add: authenticate_def bearer_token_def property_def config_def js_falsy_def)

end
